theory Spec2Isabelle
  imports Main
begin

section \<open>Python values, dictionaries and exceptions\<close>

text \<open>
  The plugin works on Python dictionaries handed over by the host: the probe entry of one
  stream (\<open>stream_info\<close>) and the \<open>data\<close> object of the two runner functions. A
  dictionary is a partial map from keys to values; the values that occur are \<open>None\<close>,
  booleans, integers, strings and lists. Strings are lists of code points below 256.
\<close>

datatype pyval = VNone | VBool bool | VInt int | VStr string | VList "pyval list"

type_synonym dict = "string \<rightharpoonup> pyval"

datatype error = AttributeError | TypeError | KeyError

text \<open>\<open>d.get(k)\<close>: the value stored under \<open>k\<close>, and \<open>None\<close> when the key is absent.\<close>

definition dict_get :: "dict \<Rightarrow> string \<Rightarrow> pyval" where
  "dict_get d k = (case d k of None \<Rightarrow> VNone | Some v \<Rightarrow> v)"

text \<open>\<open>d[k]\<close>: raises \<open>KeyError\<close> when the key is absent.\<close>

definition dict_item :: "dict \<Rightarrow> string \<Rightarrow> error + pyval" where
  "dict_item d k = (case d k of None \<Rightarrow> Inl KeyError | Some v \<Rightarrow> Inr v)"

subsection \<open>\<open>str.lower\<close>\<close>

text \<open>
  On code points below 256 \<open>str.lower\<close> moves \<open>A\<close>..\<open>Z\<close> and the Latin-1 capitals
  (192..222 without the multiplication sign 215) up by 32 and keeps every other
  character. Only strings have the method: on any other value the attribute lookup
  raises \<open>AttributeError\<close>.
\<close>

definition lower_char :: "char \<Rightarrow> char" where
  "lower_char c =
     (let n = (of_char c :: nat)
      in if (65 \<le> n \<and> n \<le> 90) \<or> (192 \<le> n \<and> n \<le> 222 \<and> n \<noteq> 215)
         then char_of (n + 32) else c)"

definition str_lower :: "string \<Rightarrow> string" where
  "str_lower s = map lower_char s"

definition py_lower :: "pyval \<Rightarrow> error + string" where
  "py_lower v = (case v of VStr s \<Rightarrow> Inr (str_lower s) | _ \<Rightarrow> Inl AttributeError)"

subsection \<open>Formatting an integer with \<open>'{}'.format\<close>\<close>

definition digit_char :: "nat \<Rightarrow> char" where
  "digit_char n = ''0123456789'' ! n"

fun str_nat :: "nat \<Rightarrow> string" where
  "str_nat n = (if n < 10 then [digit_char n] else str_nat (n div 10) @ [digit_char (n mod 10)])"

declare str_nat.simps [simp del]

definition str_int :: "int \<Rightarrow> string" where
  "str_int i = (if i < 0 then CHR ''-'' # str_nat (nat (- i)) else str_nat (nat i))"

subsection \<open>\<open>os.path.splitext\<close> (posixpath)\<close>

text \<open>
  \<open>p.rfind(c)\<close>: the greatest index at which \<open>c\<close> occurs in \<open>p\<close>, and \<open>-1\<close> when
  it does not occur.
\<close>

primrec rfind :: "string \<Rightarrow> char \<Rightarrow> int" where
  "rfind [] c = - 1"
| "rfind (x # xs) c =
     (let r = rfind xs c in if 0 \<le> r then r + 1 else if x = c then 0 else - 1)"

text \<open>
  The loop of \<open>genericpath._splitext\<close> that skips the leading dots of the file name:
  it walks \<open>filenameIndex\<close> up to \<open>dotIndex\<close> and answers whether it met a character
  other than the dot (in which case the path is split at \<open>dotIndex\<close>).
\<close>

function skip_leading_dots :: "string \<Rightarrow> nat \<Rightarrow> nat \<Rightarrow> bool" where
  "skip_leading_dots p filenameIndex dotIndex =
     (if filenameIndex < dotIndex
      then (if take 1 (drop filenameIndex p) \<noteq> [CHR ''.''] then True
            else skip_leading_dots p (Suc filenameIndex) dotIndex)
      else False)"
  by pat_completeness auto
termination
  by (relation "measure (\<lambda>(p, filenameIndex, dotIndex). dotIndex - filenameIndex)") auto

declare skip_leading_dots.simps [simp del]

definition splitext :: "string \<Rightarrow> string \<times> string" where
  "splitext p =
     (let sepIndex = rfind p CHR ''/'';
          dotIndex = rfind p CHR ''.''
      in if sepIndex < dotIndex \<and> skip_leading_dots p (nat (sepIndex + 1)) (nat dotIndex)
         then (take (nat dotIndex) p, drop (nat dotIndex) p)
         else (p, []))"

text \<open>\<open>os.path.splitext\<close> on a value: anything that is not a path raises \<open>TypeError\<close>.\<close>

definition py_splitext :: "pyval \<Rightarrow> error + string \<times> string" where
  "py_splitext v = (case v of VStr p \<Rightarrow> Inr (splitext p) | _ \<Rightarrow> Inl TypeError)"

section \<open>The plugin\<close>

subsection \<open>Settings\<close>

text \<open>
  The class \<open>Settings\<close> declares five keys, each with a string value; \<open>get_setting\<close>
  reads one of them. The field \<open>cpu_used\<close> stands for the key \<open>cpu-used\<close>.
\<close>

record settings =
  mode :: string
  crf :: string
  bitrate :: string
  deadline :: string
  cpu_used :: string

definition default_settings :: settings where
  "default_settings =
     \<lparr>mode = ''average_bitrate'', crf = ''31'', bitrate = ''2M'', deadline = ''good'',
      cpu_used = ''0''\<rparr>"

subsection \<open>\<open>StreamMapper\<close>\<close>

definition test_stream_needs_processing :: "dict \<Rightarrow> error + bool" where
  "test_stream_needs_processing stream_info =
     (case py_lower (dict_get stream_info ''codec_name'') of
        Inl e \<Rightarrow> Inl e
      | Inr name \<Rightarrow> if name \<in> set [''vp9''] then Inr False else Inr True)"

record fragment =
  stream_mapping :: "string list"
  stream_encoding :: "string list"

definition custom_stream_mapping :: "settings \<Rightarrow> dict \<Rightarrow> int \<Rightarrow> fragment" where
  "custom_stream_mapping cfg stream_info stream_id =
     (let encoder_mode = mode cfg;
          enc =
            (if encoder_mode = ''average_bitrate'' then
               [''-c:v:'' @ str_int stream_id, ''libvpx-vp9'',
                ''-b:v:'' @ str_int stream_id, bitrate cfg,
                ''-threads'', ''8'',
                ''-row-mt'', ''1'',
                ''-deadline'', deadline cfg,
                ''-cpu-used'', cpu_used cfg]
             else if encoder_mode = ''constant_quality'' then
               [''-c:v:'' @ str_int stream_id, ''libvpx-vp9'',
                ''-crf'', crf cfg,
                ''-b:v:'' @ str_int stream_id, ''0'',
                ''-threads'', ''8'',
                ''-row-mt'', ''1'',
                ''-deadline'', deadline cfg,
                ''-cpu-used'', cpu_used cfg]
             else if encoder_mode = ''constrained_quality'' then
               [''-c:v:'' @ str_int stream_id, ''libvpx-vp9'',
                ''-crf'', crf cfg,
                ''-b:v:'' @ str_int stream_id, bitrate cfg,
                ''-threads'', ''8'',
                ''-row-mt'', ''1'',
                ''-deadline'', deadline cfg,
                ''-cpu-used'', cpu_used cfg]
             else if encoder_mode = ''constant_bitrate'' then
               [''-c:v:'' @ str_int stream_id, ''libvpx-vp9'',
                ''-minrate'', bitrate cfg,
                ''-maxrate'', bitrate cfg,
                ''-b:v:'' @ str_int stream_id, bitrate cfg,
                ''-threads'', ''8'',
                ''-row-mt'', ''1'',
                ''-deadline'', deadline cfg,
                ''-cpu-used'', cpu_used cfg]
             else if encoder_mode = ''lossless'' then
               [''-c:v:'' @ str_int stream_id, ''libvpx-vp9'',
                ''-lossless'', ''1'',
                ''-threads'', ''8'',
                ''-row-mt'', ''1'',
                ''-deadline'', deadline cfg,
                ''-cpu-used'', cpu_used cfg]
             else [''-c:v:'' @ str_int stream_id, ''libvpx-vp9'', ''-b:v'', ''2M''])
      in \<lparr>stream_mapping = [''-map'', ''0:v:'' @ str_int stream_id],
          stream_encoding = enc\<rparr>)"

subsection \<open>The stream mapper of \<open>lib.ffmpeg_stream_mapping\<close>\<close>

text \<open>
  Modelled from the spec: the stream descriptor of section 3. The base class
  \<open>FfmpegStreamMapper\<close> and the probe it runs are not among the sources. A descriptor
  carries the stream index, the stream type and the probe dictionary that the mapper
  hands to \<open>test_stream_needs_processing\<close> and \<open>custom_stream_mapping\<close> (the codec
  name is its entry \<open>codec_name\<close>).
\<close>

datatype stream_type = Video | Audio | Subtitle | OtherStream

record stream_descriptor =
  index :: int
  stream_type :: stream_type
  probe_info :: dict

text \<open>
  Modelled from the spec: \<open>needsProcessing\<close> of section 4.2, missing with the base
  class. A stream needs processing iff its type is video and the codec test of the
  plugin says so; the test is only run on video streams.
\<close>

definition needs_processing :: "stream_descriptor \<Rightarrow> error + bool" where
  "needs_processing d =
     (if stream_type d = Video then test_stream_needs_processing (probe_info d)
      else Inr False)"

text \<open>
  Modelled from the spec: \<open>planStreams\<close> of section 4.2, missing with the base class:
  the streams that need conversion, in the order of the probe. An exception of the codec
  test leaves the loop.
\<close>

fun plan_streams :: "stream_descriptor list \<Rightarrow> error + stream_descriptor list" where
  "plan_streams [] = Inr []"
| "plan_streams (d # ds) =
     (case needs_processing d of
        Inl e \<Rightarrow> Inl e
      | Inr b \<Rightarrow>
          (case plan_streams ds of
             Inl e \<Rightarrow> Inl e
           | Inr r \<Rightarrow> Inr (if b then d # r else r)))"

text \<open>
  Modelled from the spec: \<open>streams_need_processing\<close> of the base class, the task gate
  of section 6: true iff some stream of the file qualifies.
\<close>

definition streams_need_processing :: "stream_descriptor list \<Rightarrow> error + bool" where
  "streams_need_processing streams =
     (case plan_streams streams of Inl e \<Rightarrow> Inl e | Inr r \<Rightarrow> Inr (r \<noteq> []))"

text \<open>
  Modelled from the spec: the fragments of section 4.3, step 2, missing with the base
  class: one fragment for each decided stream, in the order of the stream indices, made
  by \<open>custom_stream_mapping\<close> at the index of the stream.
\<close>

definition fragments :: "settings \<Rightarrow> stream_descriptor list \<Rightarrow> fragment list" where
  "fragments cfg streams =
     (case plan_streams streams of
        Inl e \<Rightarrow> []
      | Inr r \<Rightarrow> map (\<lambda>d. custom_stream_mapping cfg (probe_info d) (index d)) (sort_key index r))"

text \<open>
  Modelled from the spec: \<open>get_stream_mapping\<close> of the base class, the concatenation
  of the stream selector arguments of all fragments (section 4.3, step 4).
\<close>

definition get_stream_mapping :: "settings \<Rightarrow> stream_descriptor list \<Rightarrow> string list" where
  "get_stream_mapping cfg streams = concat (map stream_mapping (fragments cfg streams))"

text \<open>
  Modelled from the spec: \<open>get_stream_encoding\<close> of the base class, the concatenation
  of the encoder arguments of all fragments (section 4.3, step 4).
\<close>

definition get_stream_encoding :: "settings \<Rightarrow> stream_descriptor list \<Rightarrow> string list" where
  "get_stream_encoding cfg streams = concat (map stream_encoding (fragments cfg streams))"

subsection \<open>The runner functions\<close>

text \<open>
  Both runners create a mapper and probe the file named in \<open>data\<close>. The settings store
  and the probe belong to the host, so they are parameters: \<open>cfg\<close> is what
  \<open>Settings()\<close> reads, and \<open>streams\<close> is what \<open>mapper.file_probe(abspath)\<close> finds
  in the file.
\<close>

definition on_library_management_file_test ::
  "stream_descriptor list \<Rightarrow> dict \<Rightarrow> error + dict" where
  "on_library_management_file_test streams data =
     (case streams_need_processing streams of
        Inl e \<Rightarrow> Inl e
      | Inr needed \<Rightarrow>
          if needed then Inr (data(''add_file_to_pending_tasks'' \<mapsto> VBool True))
          else Inr data)"

text \<open>
  The last statement of \<open>on_worker_process\<close> prints \<open>data['ffmpeg_args']\<close>, which
  raises \<open>KeyError\<close> when the host gave no such key and the plugin set none.
\<close>

definition print_ffmpeg_args :: "dict \<Rightarrow> error + dict" where
  "print_ffmpeg_args data =
     (case dict_item data ''ffmpeg_args'' of Inl e \<Rightarrow> Inl e | Inr v \<Rightarrow> Inr data)"

text \<open>
  The branch of \<open>on_worker_process\<close> taken when streams need processing. The argument
  list is assigned and then extended three times in the source; since the key has just
  been given a list, the extensions are appends. \<open>os.path.splitext\<close> is called on the
  input path first, then on the output path.
\<close>

definition build_command :: "settings \<Rightarrow> stream_descriptor list \<Rightarrow> dict \<Rightarrow> error + dict" where
  "build_command cfg streams data0 =
     (let data1 = data0(''exec_ffmpeg'' \<mapsto> VBool True);
          args =
            [VStr ''-i'', dict_get data1 ''file_in'', VStr ''-hide_banner'',
             VStr ''-loglevel'', VStr ''info'']
            @ map VStr (get_stream_mapping cfg streams)
            @ map VStr (get_stream_encoding cfg streams)
      in case py_splitext (dict_get data1 ''file_in'') of
           Inl e \<Rightarrow> Inl e
         | Inr split_file_in \<Rightarrow>
             (case py_splitext (dict_get data1 ''file_out'') of
                Inl e \<Rightarrow> Inl e
              | Inr split_file_out \<Rightarrow>
                  (let file_out = VStr (fst split_file_out @ snd split_file_in)
                   in Inr (data1(''ffmpeg_args'' \<mapsto> VList (args @ [VStr ''-y'', file_out]),
                                ''file_out'' \<mapsto> file_out)))))"

text \<open>
  \<open>on_worker_process\<close> first clears \<open>exec_ffmpeg\<close>. The source asks the mapper
  twice whether streams need processing; the second answer is dropped.
\<close>

definition on_worker_process ::
  "settings \<Rightarrow> stream_descriptor list \<Rightarrow> dict \<Rightarrow> error + dict" where
  "on_worker_process cfg streams data0 =
     (let data = data0(''exec_ffmpeg'' \<mapsto> VBool False)
      in case streams_need_processing streams of
           Inl e \<Rightarrow> Inl e
         | Inr needed \<Rightarrow>
             if needed
             then (case build_command cfg streams data of
                     Inl e \<Rightarrow> Inl e
                   | Inr data' \<Rightarrow> print_ffmpeg_args data')
             else print_ffmpeg_args data)"

section \<open>Basic facts\<close>

lemma str_int_0: "str_int 0 = ''0''"
  by (simp add: str_int_def str_nat.simps digit_char_def)

lemma of_char_lower_char:
  "(of_char (lower_char c) :: nat) =
     (if (65 \<le> (of_char c :: nat) \<and> (of_char c :: nat) \<le> 90)
         \<or> (192 \<le> (of_char c :: nat) \<and> (of_char c :: nat) \<le> 222 \<and> (of_char c :: nat) \<noteq> 215)
      then of_char c + 32 else of_char c)"
  by (simp add: lower_char_def Let_def)

lemma lower_char_eq_code:
  "lower_char c = d \<longleftrightarrow> (of_char (lower_char c) :: nat) = of_char d"
  by (simp only: of_char_eq_iff)

lemma char_eq_code: "c = d \<longleftrightarrow> (of_char c :: nat) = of_char d"
  by (simp only: of_char_eq_iff)

lemma lower_char_v: "lower_char c = CHR ''v'' \<longleftrightarrow> c = CHR ''v'' \<or> c = CHR ''V''"
  unfolding lower_char_eq_code of_char_lower_char char_eq_code [of c] by auto

lemma lower_char_p: "lower_char c = CHR ''p'' \<longleftrightarrow> c = CHR ''p'' \<or> c = CHR ''P''"
  unfolding lower_char_eq_code of_char_lower_char char_eq_code [of c] by auto

lemma lower_char_9: "lower_char c = CHR ''9'' \<longleftrightarrow> c = CHR ''9''"
  unfolding lower_char_eq_code of_char_lower_char char_eq_code [of c] by auto

lemma str_lower_vp9:
  "str_lower s = ''vp9'' \<longleftrightarrow> s \<in> set [''vp9'', ''vP9'', ''Vp9'', ''VP9'']"
  by (auto simp add: str_lower_def map_eq_Cons_conv lower_char_v lower_char_p lower_char_9)

lemma test_stream_needs_processing_str:
  "stream_info ''codec_name'' = Some (VStr c) \<Longrightarrow>
   test_stream_needs_processing stream_info = Inr (str_lower c \<noteq> ''vp9'')"
  by (simp add: test_stream_needs_processing_def dict_get_def py_lower_def)

lemma test_stream_needs_processing_cases:
  "test_stream_needs_processing stream_info =
     (case stream_info ''codec_name'' of
        Some (VStr c) \<Rightarrow> Inr (str_lower c \<noteq> ''vp9'')
      | _ \<Rightarrow> Inl AttributeError)"
  by (simp add: test_stream_needs_processing_def dict_get_def py_lower_def
      split: option.splits pyval.splits)

lemma plan_streams_all_vp9:
  "\<forall>d\<in>set streams. stream_type d = Video \<longrightarrow>
      (\<exists>c. probe_info d ''codec_name'' = Some (VStr c) \<and> str_lower c = ''vp9'')
   \<Longrightarrow> plan_streams streams = Inr []"
proof (induction streams)
  case Nil
  then show ?case by simp
next
  case (Cons d ds)
  then have "plan_streams ds = Inr []" by simp
  moreover have "needs_processing d = Inr False"
    using Cons.prems by (auto simp add: needs_processing_def test_stream_needs_processing_str)
  ultimately show ?case by simp
qed

lemma on_worker_process_not_needed:
  assumes "streams_need_processing streams = Inr False"
    and "data ''ffmpeg_args'' = Some a"
  shows "on_worker_process cfg streams data = Inr (data(''exec_ffmpeg'' \<mapsto> VBool False))"
  using assms
  by (simp add: on_worker_process_def Let_def print_ffmpeg_args_def dict_item_def)

lemma on_worker_process_needed:
  assumes "streams_need_processing streams = Inr True"
    and "data ''file_in'' = Some (VStr fin)"
    and "data ''file_out'' = Some (VStr fout)"
  shows "on_worker_process cfg streams data =
         Inr (data(''exec_ffmpeg'' \<mapsto> VBool True,
                   ''ffmpeg_args'' \<mapsto> VList
                      ([VStr ''-i'', VStr fin, VStr ''-hide_banner'', VStr ''-loglevel'', VStr ''info'']
                       @ map VStr (get_stream_mapping cfg streams)
                       @ map VStr (get_stream_encoding cfg streams)
                       @ [VStr ''-y'', VStr (fst (splitext fout) @ snd (splitext fin))]),
                   ''file_out'' \<mapsto> VStr (fst (splitext fout) @ snd (splitext fin))))"
  using assms
  by (simp add: on_worker_process_def build_command_def Let_def dict_get_def
      print_ffmpeg_args_def dict_item_def py_splitext_def)

lemma splitext_append: "fst (splitext p) @ snd (splitext p) = p"
  by (simp add: splitext_def Let_def)

lemma rfind_neg_iff: "rfind p c < 0 \<longleftrightarrow> c \<notin> set p"
  by (induction p) (auto simp add: Let_def)

lemma rfind_drop:
  "0 \<le> rfind p c \<Longrightarrow> \<exists>e. drop (nat (rfind p c)) p = c # e \<and> c \<notin> set e"
proof (induction p)
  case Nil
  then show ?case by simp
next
  case (Cons x xs)
  show ?case
  proof (cases "0 \<le> rfind xs c")
    case True
    with Cons.IH obtain e where "drop (nat (rfind xs c)) xs = c # e" "c \<notin> set e" by blast
    moreover from True have "nat (rfind xs c + 1) = Suc (nat (rfind xs c))" by simp
    ultimately show ?thesis using True by (simp add: Let_def)
  next
    case False
    then have "c \<notin> set xs" using rfind_neg_iff [of xs c] by simp
    with False Cons.prems show ?thesis by (simp add: Let_def split: if_splits)
  qed
qed

lemma splitext_ext:
  "snd (splitext p) = [] \<or> (\<exists>e. snd (splitext p) = CHR ''.'' # e \<and> CHR ''.'' \<notin> set e)"
proof (cases "rfind p CHR ''/'' < rfind p CHR ''.'' \<and>
    skip_leading_dots p (nat (rfind p CHR ''/'' + 1)) (nat (rfind p CHR ''.''))")
  case True
  have "- 1 \<le> rfind p CHR ''/''" by (induction p) (auto simp add: Let_def)
  with True have "0 \<le> rfind p CHR ''.''" by simp
  from rfind_drop [OF this] True show ?thesis by (simp add: splitext_def Let_def)
next
  case False
  then show ?thesis by (auto simp add: splitext_def Let_def)
qed

lemma rfind_notin: "c \<notin> set p \<Longrightarrow> rfind p c = - 1"
  by (induction p) (auto simp add: Let_def)

lemma rfind_lower: "- 1 \<le> rfind p c"
  by (induction p) (auto simp add: Let_def)

lemma rfind_upper: "rfind p c < int (length p)"
  by (induction p) (auto simp add: Let_def)

lemma rfind_append_notin: "c \<notin> set ys \<Longrightarrow> rfind (xs @ ys) c = rfind xs c"
  by (induction xs) (auto simp add: Let_def rfind_notin)

lemma rfind_last_occurrence: "c \<notin> set e \<Longrightarrow> rfind (r @ c # e) c = int (length r)"
  by (induction r) (auto simp add: Let_def rfind_notin)

lemma skip_leading_dots_found:
  "i \<le> k \<Longrightarrow> k < j \<Longrightarrow> k < length p \<Longrightarrow> p ! k \<noteq> CHR ''.'' \<Longrightarrow> skip_leading_dots p i j"
proof (induction p i j rule: skip_leading_dots.induct)
  case (1 p i j)
  show ?case
  proof (cases "take 1 (drop i p) \<noteq> [CHR ''.'']")
    case True
    with "1.prems" show ?thesis by (subst skip_leading_dots.simps) simp
  next
    case False
    have "i \<noteq> k"
    proof
      assume "i = k"
      with "1.prems" have "take 1 (drop i p) = [p ! k]"
        by (simp add: take_Suc_conv_app_nth)
      with False "1.prems" show False by simp
    qed
    with "1.prems" have "Suc i \<le> k" "i < j" by simp_all
    with "1.IH" False "1.prems" have "skip_leading_dots p (Suc i) j" by simp
    with False \<open>i < j\<close> show ?thesis by (subst skip_leading_dots.simps) simp
  qed
qed

lemma splitext_extension:
  assumes "c \<noteq> CHR ''.''" and "c \<noteq> CHR ''/''"
    and "CHR ''/'' \<notin> set n" and "CHR ''/'' \<notin> set e" and "CHR ''.'' \<notin> set e"
  shows "splitext (d @ c # n @ CHR ''.'' # e) = (d @ c # n, CHR ''.'' # e)"
proof -
  define r where "r = d @ c # n"
  define p where "p = r @ CHR ''.'' # e"
  have dot: "rfind p CHR ''.'' = int (length r)"
    unfolding p_def using assms(5) by (rule rfind_last_occurrence)
  have "CHR ''/'' \<notin> set (c # n @ CHR ''.'' # e)" using assms by simp
  then have "rfind (d @ c # n @ CHR ''.'' # e) CHR ''/'' = rfind d CHR ''/''"
    by (rule rfind_append_notin)
  then have sep: "rfind p CHR ''/'' = rfind d CHR ''/''"
    by (simp add: p_def r_def)
  have lo: "- 1 \<le> rfind d CHR ''/''" by (rule rfind_lower)
  have up: "rfind d CHR ''/'' < int (length d)" by (rule rfind_upper)
  have len: "length d < length r" by (simp add: r_def)
  have skip: "skip_leading_dots p (nat (rfind d CHR ''/'' + 1)) (length r)"
  proof (rule skip_leading_dots_found [where k = "length d"])
    show "nat (rfind d CHR ''/'' + 1) \<le> length d" using lo up by simp
    show "length d < length r" by (rule len)
    show "length d < length p" by (simp add: p_def r_def)
    show "p ! length d \<noteq> CHR ''.''" using assms(1) by (simp add: p_def r_def)
  qed
  have lt: "rfind d CHR ''/'' < int (length r)" using up len by simp
  have "splitext p = (take (length r) p, drop (length r) p)"
    using skip lt by (simp add: splitext_def Let_def dot sep)
  also have "\<dots> = (r, CHR ''.'' # e)" by (simp add: p_def)
  finally show ?thesis by (simp add: p_def r_def)
qed

lemma h264_needs:
  "streams_need_processing
     [\<lparr>index = 0, stream_type = Video, probe_info = [''codec_name'' \<mapsto> VStr ''h264'']\<rparr>] = Inr True"
  by (simp add: streams_need_processing_def needs_processing_def test_stream_needs_processing_def
      dict_get_def py_lower_def str_lower_def lower_char_def)

lemma splitext_movie_mp4: "splitext ''movie.mp4'' = (''movie'', ''.mp4'')"
  by (simp add: splitext_def skip_leading_dots.simps)

lemma splitext_movie_mkv: "splitext ''movie.mkv'' = (''movie'', ''.mkv'')"
  by (simp add: splitext_def skip_leading_dots.simps)

lemma splitext_movie: "splitext ''movie'' = (''movie'', [])"
  by (simp add: splitext_def skip_leading_dots.simps)

lemma vp9_not_needed:
  "streams_need_processing
     [\<lparr>index = 0, stream_type = Video, probe_info = [''codec_name'' \<mapsto> VStr ''vp9'']\<rparr>,
      \<lparr>index = 1, stream_type = Audio, probe_info = [''codec_name'' \<mapsto> VStr ''aac'']\<rparr>]
   = Inr False"
  by (simp add: streams_need_processing_def needs_processing_def test_stream_needs_processing_def
      dict_get_def py_lower_def str_lower_def lower_char_def)

lemma h264_fragments:
  "fragments default_settings
     [\<lparr>index = 0, stream_type = Video, probe_info = [''codec_name'' \<mapsto> VStr ''h264'']\<rparr>]
   = [\<lparr>stream_mapping = [''-map'', ''0:v:0''],
       stream_encoding = [''-c:v:0'', ''libvpx-vp9'', ''-b:v:0'', ''2M'', ''-threads'', ''8'',
         ''-row-mt'', ''1'', ''-deadline'', ''good'', ''-cpu-used'', ''0'']\<rparr>]"
  by (simp add: fragments_def needs_processing_def test_stream_needs_processing_def
      dict_get_def py_lower_def str_lower_def lower_char_def custom_stream_mapping_def
      default_settings_def str_int_0)

lemma on_worker_process_no_args:
  assumes "streams_need_processing streams = Inr False"
    and "data ''ffmpeg_args'' = None"
  shows "on_worker_process cfg streams data = Inl KeyError"
  using assms
  by (simp add: on_worker_process_def Let_def print_ffmpeg_args_def dict_item_def)

section \<open>Which streams need processing\<close>

text \<open>
  C1. A stream whose codec name lower-cases to vp9, that is one spelled vp9, vP9, Vp9 or
  VP9, is answered false by \<open>test_stream_needs_processing\<close>. A stream with a codec
  name needs processing iff it is a video stream and its lower-cased codec name is not
  vp9. When every video stream of a file is such a VP9 stream, no stream is selected,
  the mapper reports that nothing needs processing, and \<open>on_worker_process\<close> (given
  the \<open>ffmpeg_args\<close> of the host) returns the data with \<open>exec_ffmpeg\<close> false and
  nothing else changed.
\<close>

theorem vp9_not_reprocessed:
  "(stream_info ''codec_name'' = Some (VStr c) \<and> str_lower c = ''vp9''
      \<longrightarrow> test_stream_needs_processing stream_info = Inr False)
   \<and> (str_lower c = ''vp9'' \<longleftrightarrow> c \<in> set [''vp9'', ''vP9'', ''Vp9'', ''VP9''])
   \<and> (probe_info d ''codec_name'' = Some (VStr c)
      \<longrightarrow> needs_processing d = Inr (stream_type d = Video \<and> str_lower c \<noteq> ''vp9''))
   \<and> ((\<forall>d\<in>set streams. stream_type d = Video \<longrightarrow>
          (\<exists>c. probe_info d ''codec_name'' = Some (VStr c) \<and> str_lower c = ''vp9''))
        \<and> data ''ffmpeg_args'' = Some a
      \<longrightarrow> plan_streams streams = Inr []
          \<and> streams_need_processing streams = Inr False
          \<and> on_worker_process cfg streams data = Inr (data(''exec_ffmpeg'' \<mapsto> VBool False)))"
proof (intro conjI impI)
  assume "stream_info ''codec_name'' = Some (VStr c) \<and> str_lower c = ''vp9''"
  then show "test_stream_needs_processing stream_info = Inr False"
    by (simp add: test_stream_needs_processing_str)
next
  show "str_lower c = ''vp9'' \<longleftrightarrow> c \<in> set [''vp9'', ''vP9'', ''Vp9'', ''VP9'']"
    by (rule str_lower_vp9)
next
  assume "probe_info d ''codec_name'' = Some (VStr c)"
  then show "needs_processing d = Inr (stream_type d = Video \<and> str_lower c \<noteq> ''vp9'')"
    by (simp add: needs_processing_def test_stream_needs_processing_str)
next
  assume h: "(\<forall>d\<in>set streams. stream_type d = Video \<longrightarrow>
          (\<exists>c. probe_info d ''codec_name'' = Some (VStr c) \<and> str_lower c = ''vp9''))
        \<and> data ''ffmpeg_args'' = Some a"
  then have p: "plan_streams streams = Inr []" by (simp add: plan_streams_all_vp9)
  then have n: "streams_need_processing streams = Inr False"
    by (simp add: streams_need_processing_def)
  from p show "plan_streams streams = Inr []" .
  from n show "streams_need_processing streams = Inr False" .
  from n h show "on_worker_process cfg streams data = Inr (data(''exec_ffmpeg'' \<mapsto> VBool False))"
    by (simp add: on_worker_process_not_needed)
qed

theorem vp9_not_reprocessed_witness:
  "str_lower ''VP9'' = ''vp9''
   \<and> test_stream_needs_processing [''codec_name'' \<mapsto> VStr ''VP9''] = Inr False
   \<and> needs_processing
        \<lparr>index = 0, stream_type = Video, probe_info = [''codec_name'' \<mapsto> VStr ''VP9'']\<rparr>
      = Inr False
   \<and> on_worker_process default_settings
        [\<lparr>index = 0, stream_type = Video, probe_info = [''codec_name'' \<mapsto> VStr ''VP9'']\<rparr>,
         \<lparr>index = 1, stream_type = Audio, probe_info = [''codec_name'' \<mapsto> VStr ''aac'']\<rparr>]
        [''exec_ffmpeg'' \<mapsto> VBool True, ''file_in'' \<mapsto> VStr ''movie.webm'',
         ''ffmpeg_args'' \<mapsto> VList []]
      = Inr ([''exec_ffmpeg'' \<mapsto> VBool True, ''file_in'' \<mapsto> VStr ''movie.webm'',
              ''ffmpeg_args'' \<mapsto> VList []](''exec_ffmpeg'' \<mapsto> VBool False))"
proof -
  have l: "str_lower ''VP9'' = ''vp9''" by (simp add: str_lower_vp9)
  show ?thesis
    using vp9_not_reprocessed [of "[''codec_name'' \<mapsto> VStr ''VP9'']" "''VP9''"
      "\<lparr>index = 0, stream_type = Video, probe_info = [''codec_name'' \<mapsto> VStr ''VP9'']\<rparr>"
      "[\<lparr>index = 0, stream_type = Video, probe_info = [''codec_name'' \<mapsto> VStr ''VP9'']\<rparr>,
         \<lparr>index = 1, stream_type = Audio, probe_info = [''codec_name'' \<mapsto> VStr ''aac'']\<rparr>]"
      "[''exec_ffmpeg'' \<mapsto> VBool True, ''file_in'' \<mapsto> VStr ''movie.webm'',
         ''ffmpeg_args'' \<mapsto> VList []]" "VList []" default_settings]
    by (simp add: l)
qed

text \<open>
  C2, as amended. A stream descriptor without a codec name (no \<open>codec_name\<close> key, or the
  value \<open>None\<close>) makes \<open>test_stream_needs_processing\<close> raise \<open>AttributeError\<close>:
  the method \<open>lower\<close> is looked up on \<open>None\<close>. The test answers true exactly for the
  descriptors whose codec name is a string that does not lower-case to vp9.
\<close>

theorem missing_codec_name_raises:
  "(stream_info ''codec_name'' = None \<or> stream_info ''codec_name'' = Some VNone
      \<longrightarrow> test_stream_needs_processing stream_info = Inl AttributeError)
   \<and> (test_stream_needs_processing stream_info = Inr True
      \<longleftrightarrow> (\<exists>c. stream_info ''codec_name'' = Some (VStr c) \<and> str_lower c \<noteq> ''vp9''))"
  by (auto simp add: test_stream_needs_processing_cases split: option.splits pyval.splits)

theorem missing_codec_name_raises_witness:
  "test_stream_needs_processing Map.empty = Inl AttributeError
   \<and> test_stream_needs_processing [''codec_name'' \<mapsto> VStr ''h264''] = Inr True"
proof -
  have "str_lower ''h264'' \<noteq> ''vp9''" by (simp add: str_lower_vp9)
  then show ?thesis
    using missing_codec_name_raises [of Map.empty]
      missing_codec_name_raises [of "[''codec_name'' \<mapsto> VStr ''h264'']"]
    by simp
qed

text \<open>
  The claim C2 as first written asks for the answer true on a missing codec name. Both a
  descriptor without the key and one with the value \<open>None\<close> raise instead.
\<close>

theorem missing_codec_name_counterexample:
  "test_stream_needs_processing [''codec_type'' \<mapsto> VStr ''video''] = Inl AttributeError
   \<and> test_stream_needs_processing [''codec_name'' \<mapsto> VNone] = Inl AttributeError"
  by (simp add: test_stream_needs_processing_def dict_get_def py_lower_def)

section \<open>Encoder arguments\<close>

text \<open>
  C3. For the stream with index 0 and codec name h264 and the configuration with mode
  constant_quality, crf 30, deadline good and cpu-used 2 (whatever the bitrate setting),
  the encoder arguments are exactly
  -c:v:0 libvpx-vp9 -crf 30 -b:v:0 0 -threads 8 -row-mt 1 -deadline good -cpu-used 2
  and the stream selector arguments are exactly -map 0:v:0.
\<close>

theorem constant_quality_scenario:
  "stream_encoding
     (custom_stream_mapping
        \<lparr>mode = ''constant_quality'', crf = ''30'', bitrate = b, deadline = ''good'',
         cpu_used = ''2''\<rparr>
        [''codec_name'' \<mapsto> VStr ''h264''] 0)
   = [''-c:v:0'', ''libvpx-vp9'', ''-crf'', ''30'', ''-b:v:0'', ''0'', ''-threads'', ''8'',
      ''-row-mt'', ''1'', ''-deadline'', ''good'', ''-cpu-used'', ''2'']
   \<and> stream_mapping
     (custom_stream_mapping
        \<lparr>mode = ''constant_quality'', crf = ''30'', bitrate = b, deadline = ''good'',
         cpu_used = ''2''\<rparr>
        [''codec_name'' \<mapsto> VStr ''h264''] 0)
   = [''-map'', ''0:v:0'']"
  by (simp add: custom_stream_mapping_def str_int_0)




text \<open>
  C5. The encoder arguments of each of the five modes, for every stream index and every
  value of the other settings. average_bitrate gives the target bitrate from the
  settings; constant_quality gives the crf and the bitrate 0; constrained_quality gives
  the crf and the bitrate; constant_bitrate gives minrate, maxrate and target bitrate,
  all three the bitrate of the settings; lossless gives the lossless flag and neither crf
  nor any bitrate flag. Every mode fixes the codec, eight threads and row-mt 1 and hands
  on the deadline and cpu-used settings as they are.
\<close>

theorem mode_coverage:
  "stream_encoding (custom_stream_mapping (cfg\<lparr>mode := ''average_bitrate''\<rparr>) stream_info stream_id)
     = [''-c:v:'' @ str_int stream_id, ''libvpx-vp9'',
        ''-b:v:'' @ str_int stream_id, bitrate cfg,
        ''-threads'', ''8'', ''-row-mt'', ''1'',
        ''-deadline'', deadline cfg, ''-cpu-used'', cpu_used cfg]
   \<and> stream_encoding (custom_stream_mapping (cfg\<lparr>mode := ''constant_quality''\<rparr>) stream_info stream_id)
     = [''-c:v:'' @ str_int stream_id, ''libvpx-vp9'',
        ''-crf'', crf cfg,
        ''-b:v:'' @ str_int stream_id, ''0'',
        ''-threads'', ''8'', ''-row-mt'', ''1'',
        ''-deadline'', deadline cfg, ''-cpu-used'', cpu_used cfg]
   \<and> stream_encoding (custom_stream_mapping (cfg\<lparr>mode := ''constrained_quality''\<rparr>) stream_info stream_id)
     = [''-c:v:'' @ str_int stream_id, ''libvpx-vp9'',
        ''-crf'', crf cfg,
        ''-b:v:'' @ str_int stream_id, bitrate cfg,
        ''-threads'', ''8'', ''-row-mt'', ''1'',
        ''-deadline'', deadline cfg, ''-cpu-used'', cpu_used cfg]
   \<and> stream_encoding (custom_stream_mapping (cfg\<lparr>mode := ''constant_bitrate''\<rparr>) stream_info stream_id)
     = [''-c:v:'' @ str_int stream_id, ''libvpx-vp9'',
        ''-minrate'', bitrate cfg,
        ''-maxrate'', bitrate cfg,
        ''-b:v:'' @ str_int stream_id, bitrate cfg,
        ''-threads'', ''8'', ''-row-mt'', ''1'',
        ''-deadline'', deadline cfg, ''-cpu-used'', cpu_used cfg]
   \<and> stream_encoding (custom_stream_mapping (cfg\<lparr>mode := ''lossless''\<rparr>) stream_info stream_id)
     = [''-c:v:'' @ str_int stream_id, ''libvpx-vp9'',
        ''-lossless'', ''1'',
        ''-threads'', ''8'', ''-row-mt'', ''1'',
        ''-deadline'', deadline cfg, ''-cpu-used'', cpu_used cfg]"
  by (simp add: custom_stream_mapping_def)

text \<open>
  C6. For every settings value, so for each of the five modes and for any other mode, and
  for every stream index, the encoder arguments begin with the codec selection pair of
  that index. The fragment is a function of the settings and the stream index alone: the
  probe dictionary of the stream has no influence on it.
\<close>

theorem codec_selection_first:
  "take 2 (stream_encoding (custom_stream_mapping cfg stream_info stream_id))
     = [''-c:v:'' @ str_int stream_id, ''libvpx-vp9'']
   \<and> custom_stream_mapping cfg stream_info stream_id
     = custom_stream_mapping cfg stream_info' stream_id"
  by (simp add: custom_stream_mapping_def Let_def)

section \<open>The output path\<close>

text \<open>
  C7. A path has an extension when it reads \<open>d @ c # n @ ''.'' @ e\<close>: a character
  \<open>c\<close> of the file name that is neither a dot nor a slash, the rest \<open>n\<close> of the
  file name without a slash, the last dot, and an extension text \<open>e\<close> without dot
  and slash. When streams need processing and the input and the output path both have
  an extension, \<open>on_worker_process\<close> returns with \<open>exec_ffmpeg\<close> true, and the
  output path, stored under \<open>file_out\<close> and given as the last argument after -y, is
  the output path up to its last dot followed by the dot and the extension text of the
  input path. With input movie.mkv and output /out/movie.mp4 it is /out/movie.mkv.
\<close>

theorem container_preserved:
  assumes "streams_need_processing streams = Inr True"
    and "data ''file_in'' = Some (VStr (di @ ci # ni @ CHR ''.'' # ei))"
    and "data ''file_out'' = Some (VStr (do @ co # no @ CHR ''.'' # eo))"
    and "ci \<noteq> CHR ''.''" and "ci \<noteq> CHR ''/''" and "CHR ''/'' \<notin> set ni"
    and "CHR ''/'' \<notin> set ei" and "CHR ''.'' \<notin> set ei"
    and "co \<noteq> CHR ''.''" and "co \<noteq> CHR ''/''" and "CHR ''/'' \<notin> set no"
    and "CHR ''/'' \<notin> set eo" and "CHR ''.'' \<notin> set eo"
  shows "on_worker_process cfg streams data =
         Inr (data(''exec_ffmpeg'' \<mapsto> VBool True,
                   ''ffmpeg_args'' \<mapsto> VList
                      ([VStr ''-i'', VStr (di @ ci # ni @ CHR ''.'' # ei),
                        VStr ''-hide_banner'', VStr ''-loglevel'', VStr ''info'']
                       @ map VStr (get_stream_mapping cfg streams)
                       @ map VStr (get_stream_encoding cfg streams)
                       @ [VStr ''-y'', VStr (do @ co # no @ CHR ''.'' # ei)]),
                   ''file_out'' \<mapsto> VStr (do @ co # no @ CHR ''.'' # ei)))"
proof -
  have i: "splitext (di @ ci # ni @ CHR ''.'' # ei) = (di @ ci # ni, CHR ''.'' # ei)"
    using assms(4-8) by (rule splitext_extension)
  have out: "splitext (do @ co # no @ CHR ''.'' # eo) = (do @ co # no, CHR ''.'' # eo)"
    using assms(9-13) by (rule splitext_extension)
  show ?thesis
    by (simp add: on_worker_process_needed [OF assms(1-3)] i out)
qed

theorem container_preserved_witness:
  "streams_need_processing
     [\<lparr>index = 0, stream_type = Video, probe_info = [''codec_name'' \<mapsto> VStr ''h264'']\<rparr>]
     = Inr True
   \<and> on_worker_process default_settings
       [\<lparr>index = 0, stream_type = Video, probe_info = [''codec_name'' \<mapsto> VStr ''h264'']\<rparr>]
       [''file_in'' \<mapsto> VStr ''movie.mkv'', ''file_out'' \<mapsto> VStr ''/out/movie.mp4'']
     = Inr ([''file_in'' \<mapsto> VStr ''movie.mkv'', ''file_out'' \<mapsto> VStr ''/out/movie.mp4'']
        (''exec_ffmpeg'' \<mapsto> VBool True,
         ''ffmpeg_args'' \<mapsto> VList
            [VStr ''-i'', VStr ''movie.mkv'', VStr ''-hide_banner'', VStr ''-loglevel'', VStr ''info'',
             VStr ''-map'', VStr ''0:v:0'',
             VStr ''-c:v:0'', VStr ''libvpx-vp9'', VStr ''-b:v:0'', VStr ''2M'',
             VStr ''-threads'', VStr ''8'', VStr ''-row-mt'', VStr ''1'',
             VStr ''-deadline'', VStr ''good'', VStr ''-cpu-used'', VStr ''0'',
             VStr ''-y'', VStr ''/out/movie.mkv''],
         ''file_out'' \<mapsto> VStr ''/out/movie.mkv''))"
  using container_preserved [of
      "[\<lparr>index = 0, stream_type = Video, probe_info = [''codec_name'' \<mapsto> VStr ''h264'']\<rparr>]"
      "[''file_in'' \<mapsto> VStr ''movie.mkv'', ''file_out'' \<mapsto> VStr ''/out/movie.mp4'']"
      "[]" "CHR ''m''" "''ovie''" "''mkv''"
      "''/out/''" "CHR ''m''" "''ovie''" "''mp4''" default_settings]
  by (simp add: h264_needs get_stream_mapping_def get_stream_encoding_def h264_fragments)

text \<open>
  C9, as amended. A path without an extension does not stop the plan. Whenever streams
  need processing and both paths are strings, \<open>on_worker_process\<close> returns with
  \<open>exec_ffmpeg\<close> true and the output path made of the root of the output path and the
  extension of the input path: the bare root when the input path has no extension, the
  whole output path followed by the input's extension when the output path has none.
\<close>

theorem missing_extension_still_plans:
  assumes "streams_need_processing streams = Inr True"
    and "data ''file_in'' = Some (VStr fin)"
    and "data ''file_out'' = Some (VStr fout)"
    and "snd (splitext fin) = [] \<or> snd (splitext fout) = []"
  shows "case on_worker_process cfg streams data of
           Inl e \<Rightarrow> False
         | Inr data' \<Rightarrow>
             data' ''exec_ffmpeg'' = Some (VBool True)
             \<and> data' ''file_out'' = Some (VStr (fst (splitext fout) @ snd (splitext fin)))
             \<and> (snd (splitext fin) = [] \<longrightarrow> data' ''file_out'' = Some (VStr (fst (splitext fout))))
             \<and> (snd (splitext fout) = [] \<longrightarrow> data' ''file_out'' = Some (VStr (fout @ snd (splitext fin))))"
proof -
  have "snd (splitext fout) = [] \<Longrightarrow> fst (splitext fout) = fout"
    using splitext_append [of fout] by simp
  then show ?thesis
    by (auto simp add: on_worker_process_needed [OF assms(1-3)])
qed

theorem missing_extension_still_plans_witness:
  "streams_need_processing
     [\<lparr>index = 0, stream_type = Video, probe_info = [''codec_name'' \<mapsto> VStr ''h264'']\<rparr>]
     = Inr True
   \<and> snd (splitext ''movie'') = []
   \<and> (case on_worker_process default_settings
         [\<lparr>index = 0, stream_type = Video, probe_info = [''codec_name'' \<mapsto> VStr ''h264'']\<rparr>]
         [''file_in'' \<mapsto> VStr ''movie.mkv'', ''file_out'' \<mapsto> VStr ''movie''] of
        Inl e \<Rightarrow> False
      | Inr data' \<Rightarrow>
          data' ''exec_ffmpeg'' = Some (VBool True)
          \<and> data' ''file_out'' = Some (VStr ''movie.mkv''))"
  using missing_extension_still_plans [of
      "[\<lparr>index = 0, stream_type = Video, probe_info = [''codec_name'' \<mapsto> VStr ''h264'']\<rparr>]"
      "[''file_in'' \<mapsto> VStr ''movie.mkv'', ''file_out'' \<mapsto> VStr ''movie'']"
      "''movie.mkv''" "''movie''" default_settings]
  by (simp add: h264_needs splitext_movie splitext_movie_mkv cong: sum.case_cong)

text \<open>
  The claim C9 as first written asks that no plan is made when a path has no extension.
  With the input path movie and the output path movie.mp4 the plan is made, and its output
  path is movie.
\<close>

theorem missing_extension_counterexample:
  "on_worker_process default_settings
     [\<lparr>index = 0, stream_type = Video, probe_info = [''codec_name'' \<mapsto> VStr ''h264'']\<rparr>]
     [''file_in'' \<mapsto> VStr ''movie'', ''file_out'' \<mapsto> VStr ''movie.mp4'']
   = Inr ([''file_in'' \<mapsto> VStr ''movie'', ''file_out'' \<mapsto> VStr ''movie.mp4'']
        (''exec_ffmpeg'' \<mapsto> VBool True,
         ''ffmpeg_args'' \<mapsto> VList
            [VStr ''-i'', VStr ''movie'', VStr ''-hide_banner'', VStr ''-loglevel'', VStr ''info'',
             VStr ''-map'', VStr ''0:v:0'',
             VStr ''-c:v:0'', VStr ''libvpx-vp9'', VStr ''-b:v:0'', VStr ''2M'',
             VStr ''-threads'', VStr ''8'', VStr ''-row-mt'', VStr ''1'',
             VStr ''-deadline'', VStr ''good'', VStr ''-cpu-used'', VStr ''0'',
             VStr ''-y'', VStr ''movie''],
         ''file_out'' \<mapsto> VStr ''movie''))"
  by (simp add: on_worker_process_needed [where fin = "''movie''" and fout = "''movie.mp4''"]
      h264_needs get_stream_mapping_def get_stream_encoding_def h264_fragments
      splitext_movie splitext_movie_mp4)

section \<open>The runner functions\<close>

text \<open>
  C8. When no stream needs conversion and the host has supplied \<open>ffmpeg_args\<close>,
  \<open>on_worker_process\<close> returns the data it was given with \<open>exec_ffmpeg\<close> false:
  the mapper reports that nothing needs processing, the argument list and the output path
  are the ones of the host.
\<close>

theorem empty_plan:
  assumes "plan_streams streams = Inr []"
    and "data ''ffmpeg_args'' = Some a"
  shows "streams_need_processing streams = Inr False
         \<and> on_worker_process cfg streams data = Inr (data(''exec_ffmpeg'' \<mapsto> VBool False))
         \<and> (data(''exec_ffmpeg'' \<mapsto> VBool False)) ''ffmpeg_args'' = data ''ffmpeg_args''
         \<and> (data(''exec_ffmpeg'' \<mapsto> VBool False)) ''file_out'' = data ''file_out''"
proof -
  from assms(1) have n: "streams_need_processing streams = Inr False"
    by (simp add: streams_need_processing_def)
  with assms(2) show ?thesis by (simp add: on_worker_process_not_needed)
qed

theorem empty_plan_witness:
  "plan_streams
     [\<lparr>index = 0, stream_type = Audio, probe_info = [''codec_name'' \<mapsto> VStr ''aac'']\<rparr>]
   = Inr []
   \<and> on_worker_process default_settings
       [\<lparr>index = 0, stream_type = Audio, probe_info = [''codec_name'' \<mapsto> VStr ''aac'']\<rparr>]
       [''exec_ffmpeg'' \<mapsto> VBool True, ''file_in'' \<mapsto> VStr ''song.mka'',
        ''file_out'' \<mapsto> VStr ''song.out.mka'', ''ffmpeg_args'' \<mapsto> VList [VStr ''-y'']]
     = Inr ([''exec_ffmpeg'' \<mapsto> VBool True, ''file_in'' \<mapsto> VStr ''song.mka'',
             ''file_out'' \<mapsto> VStr ''song.out.mka'', ''ffmpeg_args'' \<mapsto> VList [VStr ''-y'']]
            (''exec_ffmpeg'' \<mapsto> VBool False))"
  using empty_plan [of
      "[\<lparr>index = 0, stream_type = Audio, probe_info = [''codec_name'' \<mapsto> VStr ''aac'']\<rparr>]"
      "[''exec_ffmpeg'' \<mapsto> VBool True, ''file_in'' \<mapsto> VStr ''song.mka'',
        ''file_out'' \<mapsto> VStr ''song.out.mka'', ''ffmpeg_args'' \<mapsto> VList [VStr ''-y'']]"
      "VList [VStr ''-y'']" default_settings]
  by (simp add: needs_processing_def)

text \<open>
  C10. \<open>on_library_management_file_test\<close> stores true under
  \<open>add_file_to_pending_tasks\<close> when streams need processing and returns the data
  unchanged when none does. Whenever it returns, every other key has the value it had,
  and the flag is either true or what the host supplied.
\<close>

theorem file_test_only_sets_flag:
  "(streams_need_processing streams = Inr True
      \<longrightarrow> on_library_management_file_test streams data
          = Inr (data(''add_file_to_pending_tasks'' \<mapsto> VBool True)))
   \<and> (streams_need_processing streams = Inr False
      \<longrightarrow> on_library_management_file_test streams data = Inr data)
   \<and> (on_library_management_file_test streams data = Inr data'
      \<longrightarrow> (\<forall>k. k \<noteq> ''add_file_to_pending_tasks'' \<longrightarrow> data' k = data k)
          \<and> (data' ''add_file_to_pending_tasks'' = Some (VBool True)
               \<or> data' ''add_file_to_pending_tasks'' = data ''add_file_to_pending_tasks''))"
  by (auto simp add: on_library_management_file_test_def split: sum.splits if_splits)

theorem file_test_only_sets_flag_witness:
  "on_library_management_file_test
     [\<lparr>index = 0, stream_type = Video, probe_info = [''codec_name'' \<mapsto> VStr ''h264'']\<rparr>]
     [''path'' \<mapsto> VStr ''movie.mkv'', ''add_file_to_pending_tasks'' \<mapsto> VBool False]
   = Inr ([''path'' \<mapsto> VStr ''movie.mkv'', ''add_file_to_pending_tasks'' \<mapsto> VBool False]
           (''add_file_to_pending_tasks'' \<mapsto> VBool True))
   \<and> on_library_management_file_test
     [\<lparr>index = 0, stream_type = Video, probe_info = [''codec_name'' \<mapsto> VStr ''vp9'']\<rparr>,
      \<lparr>index = 1, stream_type = Audio, probe_info = [''codec_name'' \<mapsto> VStr ''aac'']\<rparr>]
     [''path'' \<mapsto> VStr ''movie.webm'', ''add_file_to_pending_tasks'' \<mapsto> VBool True]
   = Inr [''path'' \<mapsto> VStr ''movie.webm'', ''add_file_to_pending_tasks'' \<mapsto> VBool True]"
  using file_test_only_sets_flag [of
      "[\<lparr>index = 0, stream_type = Video, probe_info = [''codec_name'' \<mapsto> VStr ''h264'']\<rparr>]"
      "[''path'' \<mapsto> VStr ''movie.mkv'', ''add_file_to_pending_tasks'' \<mapsto> VBool False]"]
    file_test_only_sets_flag [of
      "[\<lparr>index = 0, stream_type = Video, probe_info = [''codec_name'' \<mapsto> VStr ''vp9'']\<rparr>,
        \<lparr>index = 1, stream_type = Audio, probe_info = [''codec_name'' \<mapsto> VStr ''aac'']\<rparr>]"
      "[''path'' \<mapsto> VStr ''movie.webm'', ''add_file_to_pending_tasks'' \<mapsto> VBool True]"]
  by (simp add: h264_needs vp9_not_needed)

end
